theory Spec2Isabelle
  imports Complex_Main "HOL-Library.Log_Nat"
begin

section \<open>JavaScript numbers\<close>

text \<open>
  The schema type Number is a JavaScript number, an IEEE 754 double: a rational that a
  double represents, an infinity, or NaN. (The sign of zero is not kept; no handler
  depends on it.) A JSON body can carry any finite double, and, as a literal beyond the
  range such as 1e999, an infinity.
\<close>

datatype number = Num rat | Infinity | NegInfinity | NaN

text \<open>For \<open>x > 0\<close>, the exponent \<open>e\<close> with \<open>2^e \<le> x < 2^(e+1)\<close>.\<close>

definition ilog2 :: "rat \<Rightarrow> int" where
  "ilog2 x = (case quotient_of x of (a, b) \<Rightarrow>
                (let k = bitlen a - bitlen b in if 2 powi k \<le> x then k else k - 1))"

text \<open>Rounding to the nearest integer, a tie going to the even one.\<close>

definition round_even :: "rat \<Rightarrow> int" where
  "round_even y = (let n = \<lfloor>y\<rfloor>; d = y - of_int n
                   in if d < 1 / 2 then n else if 1 / 2 < d then n + 1
                      else if even n then n else n + 1)"

text \<open>
  For \<open>x > 0\<close>, the multiple of the unit in the last place nearest to \<open>x\<close>: 53
  significant bits, and a unit of \<open>2^-1074\<close> in the subnormal range.
\<close>

definition nearest :: "rat \<Rightarrow> rat" where
  "nearest x = (let u = max (ilog2 x - 52) (- 1074)
                in of_int (round_even (x / 2 powi u)) * 2 powi u)"

text \<open>The double that an exact result rounds to; past the largest double, an infinity.\<close>

definition to_number :: "rat \<Rightarrow> number" where
  "to_number x =
     (if x = 0 then Num 0
      else if 0 < x then (if 2 ^ 1024 \<le> nearest x then Infinity else Num (nearest x))
      else (if 2 ^ 1024 \<le> nearest (- x) then NegInfinity else Num (- nearest (- x))))"

text \<open>\<^verbatim>\<open>a + b\<close>, \<^verbatim>\<open>a - b\<close>, \<^verbatim>\<open>a < b\<close> and \<^verbatim>\<open>a <= b\<close> on numbers.\<close>

fun num_add :: "number \<Rightarrow> number \<Rightarrow> number" where
  "num_add (Num a) (Num b) = to_number (a + b)"
| "num_add NaN b = NaN"
| "num_add a NaN = NaN"
| "num_add Infinity NegInfinity = NaN"
| "num_add NegInfinity Infinity = NaN"
| "num_add Infinity b = Infinity"
| "num_add a Infinity = Infinity"
| "num_add NegInfinity b = NegInfinity"
| "num_add a NegInfinity = NegInfinity"

fun num_neg :: "number \<Rightarrow> number" where
  "num_neg (Num a) = Num (- a)"
| "num_neg Infinity = NegInfinity"
| "num_neg NegInfinity = Infinity"
| "num_neg NaN = NaN"

definition num_sub :: "number \<Rightarrow> number \<Rightarrow> number" where
  "num_sub a b = num_add a (num_neg b)"

fun num_less :: "number \<Rightarrow> number \<Rightarrow> bool" where
  "num_less (Num a) (Num b) = (a < b)"
| "num_less NaN b = False"
| "num_less a NaN = False"
| "num_less a NegInfinity = False"
| "num_less Infinity b = False"
| "num_less NegInfinity b = True"
| "num_less a Infinity = True"

fun num_le :: "number \<Rightarrow> number \<Rightarrow> bool" where
  "num_le (Num a) (Num b) = (a \<le> b)"
| "num_le NaN b = False"
| "num_le a NaN = False"
| "num_le NegInfinity b = True"
| "num_le a Infinity = True"
| "num_le a NegInfinity = False"
| "num_le Infinity b = False"



section \<open>Data model\<close>

text \<open>
  The documents of the order, cart and inventory core, as the Mongoose schemas and the
  controllers have them. An ObjectId is held as the string that \<^verbatim>\<open>toString()\<close>
  yields, 24 lower-case hexadecimal digits. An identifier that a request supplies is a
  raw string: where the code hands it to \<^verbatim>\<open>findById\<close> or to
  \<^verbatim>\<open>items.id\<close>, Mongoose casts it, accepting 24 hexadecimal digits of either
  case; where the code compares it with \<^verbatim>\<open>===\<close>, it is compared as it came.
  (A 12-character string, which some driver versions also cast, is taken as not
  castable.)
\<close>

type_synonym object_id = string

definition hex_digit :: "char \<Rightarrow> bool" where
  "hex_digit c \<longleftrightarrow> c \<in> set ''0123456789abcdefABCDEF''"

definition lower_hex :: "char \<Rightarrow> char" where
  "lower_hex c =
     (if c = CHR ''A'' then CHR ''a'' else if c = CHR ''B'' then CHR ''b''
      else if c = CHR ''C'' then CHR ''c'' else if c = CHR ''D'' then CHR ''d''
      else if c = CHR ''E'' then CHR ''e'' else if c = CHR ''F'' then CHR ''f'' else c)"

definition castObjectId :: "string \<Rightarrow> object_id option" where
  "castObjectId str =
     (if length str = 24 \<and> list_all hex_digit str then Some (map lower_hex str) else None)"

datatype role = Role_user | Role_admin

text \<open>\<^verbatim>\<open>req.user\<close>, as the \<^verbatim>\<open>protect\<close> middleware attaches it.\<close>

record req_user =
  u_id :: object_id
  u_role :: role

text \<open>
  An error reaching the error middleware: an \<^verbatim>\<open>ErrorHandler(message, statusCode)\<close>
  passed to \<^verbatim>\<open>next\<close>, a Mongoose ValidationError thrown by \<^verbatim>\<open>save\<close> or
  \<^verbatim>\<open>create\<close>, a Mongoose CastError thrown by \<^verbatim>\<open>findById\<close>, or a JavaScript
  TypeError. Every handler is wrapped in \<^verbatim>\<open>catchAsyncErrors\<close>, whose file is not
  among the sources; by section 7 of the specification every error is recovered at the
  request boundary, so an error thrown inside a handler ends the handler and reaches the
  error middleware like one passed to \<^verbatim>\<open>next\<close>, with the writes made before it left
  in place.
\<close>

datatype error = ErrorHandler string nat | ValidationError | CastError | TypeError

text \<open>
  \<^verbatim>\<open>errorMiddleware\<close>: \<^verbatim>\<open>err.statusCode = err.statusCode || 500\<close>, and a
  CastError is replaced by an \<^verbatim>\<open>ErrorHandler\<close> of status 400.
\<close>

fun statusCode :: "error \<Rightarrow> nat" where
  "statusCode (ErrorHandler m c) = (if c = 0 then 500 else c)"
| "statusCode ValidationError = 500"
| "statusCode CastError = 400"
| "statusCode TypeError = 500"

record product =
  stock :: number
  price :: number

record cart_item =
  ci_id :: object_id
  ci_product :: object_id
  ci_quantity :: number
  ci_size :: "string option"
  ci_color :: "string option"
  ci_price :: number

text \<open>
  An order item. In a request body \<open>oi_product\<close> is the raw string sent; in a stored
  order it is the ObjectId it was cast to.
\<close>

record order_item =
  oi_product :: string
  oi_name :: string
  oi_quantity :: number
  oi_size :: string
  oi_price :: number
  oi_image :: "string option"

record shipping_address =
  street :: string
  city :: string
  state_name :: string
  zipCode :: string
  country :: "string option"

record payment_result =
  pr_id :: "string option"
  pr_status :: "string option"
  pr_updateTime :: "string option"
  pr_emailAddress :: "string option"

datatype order_status =
  Processing | Confirmed | Shipped | In_Transit | Delivered | Cancelled

record order =
  o_user :: object_id
  orderItems :: "order_item list"
  shippingAddress :: shipping_address
  paymentMethod :: string
  paymentResult :: "payment_result option"
  itemsPrice :: number
  taxPrice :: number
  shippingPrice :: number
  totalPrice :: number
  isPaid :: bool
  paidAt :: "nat option"
  isDelivered :: bool
  deliveredAt :: "nat option"
  status :: order_status
  trackingNumber :: "string option"

text \<open>
  The database: the Product and Order collections by \<^verbatim>\<open>_id\<close>, and the Cart
  collection by owning user (every controller reaches a cart by
  \<^verbatim>\<open>Cart.findOne({ user: req.user._id })\<close>); a cart is its item list.
\<close>

record store =
  products :: "object_id \<rightharpoonup> product"
  carts :: "object_id \<rightharpoonup> cart_item list"
  orders :: "object_id \<rightharpoonup> order"

section \<open>Persistence with schema validation\<close>

text \<open>
  \<^verbatim>\<open>product.save()\<close> after an assignment to \<^verbatim>\<open>stock\<close>: Mongoose validates
  the modified path against \<^verbatim>\<open>productSchema.stock\<close> (\<^verbatim>\<open>min: 0\<close>, that is
  \<^verbatim>\<open>v >= 0\<close>) and throws a ValidationError, writing nothing, when the check fails;
  NaN is refused as well, by the cast of the path.
\<close>

definition Product_save :: "object_id \<Rightarrow> product \<Rightarrow> store \<Rightarrow> error + store" where
  "Product_save pid p s =
     (if num_le (Num 0) (stock p) then Inr (s\<lparr>products := (products s)(pid \<mapsto> p)\<rparr>)
      else Inl ValidationError)"

text \<open>
  \<^verbatim>\<open>orderSchema\<close>: every order item needs a name, a size and a quantity of at
  least 1; the address fields are required strings (a required string rejects the empty
  string as well); the payment method is one of the enum's values.
\<close>

definition orderItemValid :: "order_item \<Rightarrow> bool" where
  "orderItemValid it \<longleftrightarrow>
     num_le (Num 1) (oi_quantity it) \<and> oi_name it \<noteq> [] \<and> oi_size it \<noteq> []"

definition orderSchemaValid :: "order \<Rightarrow> bool" where
  "orderSchemaValid ord \<longleftrightarrow>
     list_all orderItemValid (orderItems ord) \<and>
     street (shippingAddress ord) \<noteq> [] \<and>
     city (shippingAddress ord) \<noteq> [] \<and>
     state_name (shippingAddress ord) \<noteq> [] \<and>
     zipCode (shippingAddress ord) \<noteq> [] \<and>
     country (shippingAddress ord) \<noteq> Some [] \<and>
     paymentMethod ord \<in> set [''COD'', ''Card'', ''UPI'', ''NetBanking'']"

section \<open>OrderController\<close>

text \<open>
  The body of \<^verbatim>\<open>POST /api/orders\<close>; a field that may be absent is an option.
  A quantity is taken as the number it stands for: the schema cast and the subtraction
  of line 37 both convert a numeric string to that number.
\<close>

record order_body =
  b_orderItems :: "order_item list option"
  b_shippingAddress :: shipping_address
  b_paymentMethod :: string
  b_itemsPrice :: "number option"
  b_taxPrice :: "number option"
  b_shippingPrice :: "number option"
  b_totalPrice :: "number option"

text \<open>An item as the order document holds it: the product reference cast.\<close>

definition cast_item :: "order_item \<Rightarrow> order_item option" where
  "cast_item it = map_option (\<lambda>pid. it\<lparr>oi_product := pid\<rparr>) (castObjectId (oi_product it))"

fun cast_items :: "order_item list \<Rightarrow> order_item list option" where
  "cast_items [] = Some []"
| "cast_items (it # its) =
     (case cast_item it of
        None \<Rightarrow> None
      | Some c \<Rightarrow> map_option ((#) c) (cast_items its))"

text \<open>
  The document \<^verbatim>\<open>Order.create\<close> builds: absent fields take the schema defaults;
  there is none when a product reference does not cast.
\<close>

definition new_order :: "object_id \<Rightarrow> order_body \<Rightarrow> order option" where
  "new_order uid b =
     map_option (\<lambda>items.
       \<lparr> o_user = uid,
         orderItems = items,
         shippingAddress = (b_shippingAddress b)
           \<lparr>country := Some (case country (b_shippingAddress b) of
                               None \<Rightarrow> ''India'' | Some c \<Rightarrow> c)\<rparr>,
         paymentMethod = b_paymentMethod b,
         paymentResult = None,
         itemsPrice = (case b_itemsPrice b of None \<Rightarrow> Num 0 | Some x \<Rightarrow> x),
         taxPrice = (case b_taxPrice b of None \<Rightarrow> Num 0 | Some x \<Rightarrow> x),
         shippingPrice = (case b_shippingPrice b of None \<Rightarrow> Num 0 | Some x \<Rightarrow> x),
         totalPrice = (case b_totalPrice b of None \<Rightarrow> Num 0 | Some x \<Rightarrow> x),
         isPaid = False, paidAt = None, isDelivered = False, deliveredAt = None,
         status = Processing, trackingNumber = None \<rparr>)
       (cast_items (case b_orderItems b of None \<Rightarrow> [] | Some its \<Rightarrow> its))"

text \<open>
  \<^verbatim>\<open>Order.create(doc)\<close>: casts and validates, then inserts under the fresh
  \<^verbatim>\<open>_id\<close> that Mongoose generates (the parameter \<open>new_id\<close>); a failed cast is
  reported as a validation error. It returns the document with the database.
\<close>

definition Order_create ::
  "object_id \<Rightarrow> object_id \<Rightarrow> order_body \<Rightarrow> store \<Rightarrow> error + order \<times> store" where
  "Order_create new_id uid b s =
     (case new_order uid b of
        None \<Rightarrow> Inl ValidationError
      | Some ord \<Rightarrow>
          if orderSchemaValid ord
          then Inr (ord, s\<lparr>orders := (orders s)(new_id \<mapsto> ord)\<rparr>)
          else Inl ValidationError)"

text \<open>
  The loop of \<^verbatim>\<open>createOrder\<close> (lines 34-40), over the items of the body: for each
  item in order, \<^verbatim>\<open>findById\<close> casts the reference and looks the product up; when
  it exists, the quantity is subtracted and the product saved. A save that throws ends
  the loop with everything written so far left in place.
\<close>

fun decrement_stock :: "order_item list \<Rightarrow> store \<Rightarrow> error option \<times> store" where
  "decrement_stock [] s = (None, s)"
| "decrement_stock (it # its) s =
     (case castObjectId (oi_product it) of
        None \<Rightarrow> (Some CastError, s)
      | Some pid \<Rightarrow>
          (case products s pid of
             None \<Rightarrow> decrement_stock its s
           | Some p \<Rightarrow>
               (case Product_save pid (p\<lparr>stock := num_sub (stock p) (oi_quantity it)\<rparr>) s of
                  Inl e \<Rightarrow> (Some e, s)
                | Inr s' \<Rightarrow> decrement_stock its s')))"

text \<open>
  \<^verbatim>\<open>createOrder\<close>. The result is the response (an error or the order) together
  with the database as the call leaves it. An absent \<^verbatim>\<open>orderItems\<close> passes the
  guard of line 18, and \<^verbatim>\<open>for ... of undefined\<close> then throws a TypeError.
\<close>

definition createOrder ::
  "req_user \<Rightarrow> order_body \<Rightarrow> object_id \<Rightarrow> store \<Rightarrow> (error + order) \<times> store" where
  "createOrder u b new_id s =
     (if b_orderItems b = Some [] then (Inl (ErrorHandler ''No order items'' 400), s)
      else
        (case Order_create new_id (u_id u) b s of
           Inl e \<Rightarrow> (Inl e, s)
         | Inr (ord, s1) \<Rightarrow>
             (case b_orderItems b of
                None \<Rightarrow> (Inl TypeError, s1)
              | Some its \<Rightarrow>
                  (case decrement_stock its s1 of
                     (Some e, s2) \<Rightarrow> (Inl e, s2)
                   | (None, s2) \<Rightarrow> (Inr ord, s2)))))"

text \<open>
  The loop of \<^verbatim>\<open>cancelOrder\<close> (lines 191-197), over the items of the stored
  order, whose product references are ObjectIds: the same walk, adding the recorded
  quantity back.
\<close>

fun restore_stock :: "order_item list \<Rightarrow> store \<Rightarrow> error option \<times> store" where
  "restore_stock [] s = (None, s)"
| "restore_stock (it # its) s =
     (case products s (oi_product it) of
        None \<Rightarrow> restore_stock its s
      | Some p \<Rightarrow>
          (case Product_save (oi_product it)
                  (p\<lparr>stock := num_add (stock p) (oi_quantity it)\<rparr>) s of
             Inl e \<Rightarrow> (Some e, s)
           | Inr s' \<Rightarrow> restore_stock its s'))"

text \<open>
  \<^verbatim>\<open>cancelOrder\<close>: \<^verbatim>\<open>findById\<close> of the request's id, not found, then the
  ownership check, then the status guard; past them the status is saved as Cancelled
  (the only modified path, a value of the enum, so this save validates) before the
  stock is restored.
\<close>

definition cancelOrder ::
  "req_user \<Rightarrow> string \<Rightarrow> store \<Rightarrow> (error + order) \<times> store" where
  "cancelOrder u param_id s =
     (case castObjectId param_id of
        None \<Rightarrow> (Inl CastError, s)
      | Some oid \<Rightarrow>
          (case orders s oid of
             None \<Rightarrow> (Inl (ErrorHandler ''Order not found'' 404), s)
           | Some ord \<Rightarrow>
               if o_user ord \<noteq> u_id u \<and> u_role u \<noteq> Role_admin
               then (Inl (ErrorHandler ''Not authorized to cancel this order'' 401), s)
               else if status ord = Shipped \<or> status ord = Delivered
               then (Inl (ErrorHandler
                       ''Cannot cancel order that has been shipped or delivered'' 400), s)
               else
                 (let ord' = ord\<lparr>status := Cancelled\<rparr>;
                      s1 = s\<lparr>orders := (orders s)(oid \<mapsto> ord')\<rparr>
                  in case restore_stock (orderItems ord') s1 of
                       (Some e, s2) \<Rightarrow> (Inl e, s2)
                     | (None, s2) \<Rightarrow> (Inr ord', s2))))"

text \<open>The body of \<^verbatim>\<open>PUT /api/orders/:id/pay\<close>.\<close>

record payer =
  email_address :: "string option"

record pay_body =
  pb_id :: "string option"
  pb_status :: "string option"
  pb_update_time :: "string option"
  pb_payer :: "payer option"

text \<open>
  \<^verbatim>\<open>updateOrderToPaid\<close>; the route runs it behind \<^verbatim>\<open>protect\<close> only, so
  \<open>u\<close> is any authenticated user and \<open>param_id\<close> is \<^verbatim>\<open>req.params.id\<close>. Reading \<^verbatim>\<open>req.body.payer.email_address\<close>
  with no \<^verbatim>\<open>payer\<close> throws before the save. \<open>now\<close> is \<^verbatim>\<open>Date.now()\<close>.
\<close>

definition updateOrderToPaid ::
  "req_user \<Rightarrow> string \<Rightarrow> pay_body \<Rightarrow> nat \<Rightarrow> store \<Rightarrow> (error + order) \<times> store" where
  "updateOrderToPaid u param_id b now s =
     (case castObjectId param_id of
        None \<Rightarrow> (Inl CastError, s)
      | Some oid \<Rightarrow>
          (case orders s oid of
             None \<Rightarrow> (Inl (ErrorHandler ''Order not found'' 404), s)
           | Some ord \<Rightarrow>
               (case pb_payer b of
                  None \<Rightarrow> (Inl TypeError, s)
                | Some py \<Rightarrow>
                    (let ord' = ord\<lparr>isPaid := True, paidAt := Some now,
                                     paymentResult := Some \<lparr> pr_id = pb_id b,
                                       pr_status = pb_status b,
                                       pr_updateTime = pb_update_time b,
                                       pr_emailAddress = email_address py \<rparr>\<rparr>
                     in (Inr ord', s\<lparr>orders := (orders s)(oid \<mapsto> ord')\<rparr>)))))"

section \<open>CartController\<close>

text \<open>
  Modelled from the spec: \<^verbatim>\<open>models/Cart.js\<close>, the Cart schema, is not among the
  sources. The specification's data model gives a CartItem a quantity that is a positive
  integer, so saving a cart validates every item's quantity to be at least 1 and throws a
  ValidationError, writing nothing, otherwise.
\<close>

definition cartItemValid :: "cart_item \<Rightarrow> bool" where
  "cartItemValid item \<longleftrightarrow> num_le (Num 1) (ci_quantity item)"

definition Cart_save ::
  "object_id \<Rightarrow> cart_item list \<Rightarrow> store \<Rightarrow> (error + cart_item list) \<times> store" where
  "Cart_save uid its s =
     (if list_all cartItemValid its
      then (Inr its, s\<lparr>carts := (carts s)(uid \<mapsto> its)\<rparr>)
      else (Inl ValidationError, s))"

text \<open>\<^verbatim>\<open>Array.prototype.findIndex\<close>; \<open>None\<close> is JavaScript's -1.\<close>

fun findIndex :: "('a \<Rightarrow> bool) \<Rightarrow> 'a list \<Rightarrow> nat option" where
  "findIndex P [] = None"
| "findIndex P (x # xs) = (if P x then Some 0 else map_option Suc (findIndex P xs))"

text \<open>
  The body of \<^verbatim>\<open>POST /api/cart\<close>, with the quantity a JSON number (a quantity
  sent as a string, which line 64 would concatenate, is outside this model); an absent
  quantity defaults to 1.
\<close>

record cart_body =
  cb_productId :: string
  cb_quantity :: "number option"
  cb_size :: "string option"
  cb_color :: "string option"

text \<open>
  \<^verbatim>\<open>addToCart\<close>. \<^verbatim>\<open>Product.findById(productId)\<close> casts the request's string;
  the search for an existing item (lines 55-60) compares the string as it came with
  \<^verbatim>\<open>item.product.toString()\<close>; a pushed item stores the cast reference. \<open>new_id\<close>
  is the \<^verbatim>\<open>_id\<close> Mongoose gives a pushed item. The response carries the saved
  cart, here its item list.
\<close>

definition addToCart ::
  "req_user \<Rightarrow> cart_body \<Rightarrow> object_id \<Rightarrow> store \<Rightarrow> (error + cart_item list) \<times> store" where
  "addToCart u b new_id s =
     (let quantity = (case cb_quantity b of None \<Rightarrow> Num 1 | Some q \<Rightarrow> q)
      in case castObjectId (cb_productId b) of
           None \<Rightarrow> (Inl CastError, s)
         | Some pid \<Rightarrow>
             (case products s pid of
                None \<Rightarrow> (Inl (ErrorHandler ''Product not found'' 404), s)
              | Some product \<Rightarrow>
                  if num_less (stock product) quantity
                  then (Inl (ErrorHandler ''Insufficient stock'' 400), s)
                  else
                    (let items = (case carts s (u_id u) of None \<Rightarrow> [] | Some its \<Rightarrow> its)
                     in case findIndex (\<lambda>item. ci_product item = cb_productId b \<and>
                                                ci_size item = cb_size b \<and>
                                                ci_color item = cb_color b) items of
                          Some i \<Rightarrow>
                            (let newQuantity = num_add (ci_quantity (items ! i)) quantity
                             in if num_less (stock product) newQuantity
                                then (Inl (ErrorHandler
                                        ''Insufficient stock for requested quantity'' 400), s)
                                else Cart_save (u_id u)
                                       (items[i := (items ! i)\<lparr>ci_quantity := newQuantity\<rparr>]) s)
                        | None \<Rightarrow>
                            Cart_save (u_id u)
                              (items @ [\<lparr> ci_id = new_id, ci_product = pid,
                                          ci_quantity = quantity, ci_size = cb_size b,
                                          ci_color = cb_color b,
                                          ci_price = price product \<rparr>]) s)))"

text \<open>
  \<^verbatim>\<open>updateCartItem\<close>; \<^verbatim>\<open>cart.items.id(itemId)\<close> casts the request's string
  and is the first item with that \<^verbatim>\<open>_id\<close>, none when the string does not cast.
  The product of a cart item may have been deleted, and reading
  \<^verbatim>\<open>product.stock\<close> then throws.
\<close>

definition updateCartItem ::
  "req_user \<Rightarrow> string \<Rightarrow> number \<Rightarrow> store \<Rightarrow> (error + cart_item list) \<times> store" where
  "updateCartItem u itemId quantity s =
     (if num_less quantity (Num 1)
      then (Inl (ErrorHandler ''Quantity must be at least 1'' 400), s)
      else
        (case carts s (u_id u) of
           None \<Rightarrow> (Inl (ErrorHandler ''Cart not found'' 404), s)
         | Some items \<Rightarrow>
             (case (case castObjectId itemId of
                      None \<Rightarrow> None
                    | Some iid \<Rightarrow> findIndex (\<lambda>item. ci_id item = iid) items) of
                None \<Rightarrow> (Inl (ErrorHandler ''Item not found in cart'' 404), s)
              | Some i \<Rightarrow>
                  (case products s (ci_product (items ! i)) of
                     None \<Rightarrow> (Inl TypeError, s)
                   | Some product \<Rightarrow>
                       if num_less (stock product) quantity
                       then (Inl (ErrorHandler ''Insufficient stock'' 400), s)
                       else Cart_save (u_id u)
                              (items[i := (items ! i)\<lparr>ci_quantity := quantity\<rparr>]) s))))"

text \<open>
  \<^verbatim>\<open>removeFromCart\<close>: the request's string is compared, as it came, with the
  string of each item's id and of each item's product.
\<close>

definition removeFromCart ::
  "req_user \<Rightarrow> string \<Rightarrow> store \<Rightarrow> (error + cart_item list) \<times> store" where
  "removeFromCart u itemId s =
     (case carts s (u_id u) of
        None \<Rightarrow> (Inl (ErrorHandler ''Cart not found'' 404), s)
      | Some items \<Rightarrow>
          (let itemsBefore = length items;
               items' = filter (\<lambda>item. ci_id item \<noteq> itemId \<and> ci_product item \<noteq> itemId) items
           in if length items' = itemsBefore
              then (Inl (ErrorHandler ''Item not found in cart'' 404), s)
              else Cart_save (u_id u) items' s))"

text \<open>\<^verbatim>\<open>clearCart\<close>.\<close>

definition clearCart :: "req_user \<Rightarrow> store \<Rightarrow> (error + cart_item list) \<times> store" where
  "clearCart u s =
     (case carts s (u_id u) of
        None \<Rightarrow> (Inl (ErrorHandler ''Cart not found'' 404), s)
      | Some items \<Rightarrow> Cart_save (u_id u) [] s)"

section \<open>Sequences of cart and order requests\<close>

datatype op =
    AddToCart req_user cart_body object_id
  | UpdateCartItem req_user string number
  | RemoveFromCart req_user string
  | ClearCart req_user
  | CreateOrder req_user order_body object_id
  | CancelOrder req_user string

text \<open>The database after one request, whatever the response was.\<close>

fun step :: "op \<Rightarrow> store \<Rightarrow> store" where
  "step (AddToCart u b new_id) s = snd (addToCart u b new_id s)"
| "step (UpdateCartItem u itemId q) s = snd (updateCartItem u itemId q s)"
| "step (RemoveFromCart u itemId) s = snd (removeFromCart u itemId s)"
| "step (ClearCart u) s = snd (clearCart u s)"
| "step (CreateOrder u b new_id) s = snd (createOrder u b new_id s)"
| "step (CancelOrder u param_id) s = snd (cancelOrder u param_id s)"

fun run :: "op list \<Rightarrow> store \<Rightarrow> store" where
  "run [] s = s"
| "run (x # xs) s = run xs (step x s)"


text \<open>The identity key of a cart item.\<close>

definition item_key :: "cart_item \<Rightarrow> object_id \<times> string option \<times> string option" where
  "item_key item = (ci_product item, ci_size item, ci_color item)"

text \<open>The item list of a user's cart; a user with no cart document has no items.\<close>

definition cart_of :: "store \<Rightarrow> object_id \<Rightarrow> cart_item list" where
  "cart_of s uid = (case carts s uid of None \<Rightarrow> [] | Some its \<Rightarrow> its)"

text \<open>The inventory invariant of the specification: no product has negative stock.\<close>

definition stock_nonneg :: "store \<Rightarrow> bool" where
  "stock_nonneg s \<longleftrightarrow> (\<forall>pid p. products s pid = Some p \<longrightarrow> num_le (Num 0) (stock p))"



section \<open>Example data\<close>

text \<open>
  Identifiers; two ordinary users; a shop of three products (10 and 11 with one unit in
  stock, 12 with five); and the databases that a few requests make of it.
\<close>

definition alice_id :: object_id where
  "alice_id = ''0000000000000000000000a1''"

definition bob_id :: object_id where
  "bob_id = ''0000000000000000000000b2''"

definition p10 :: object_id where
  "p10 = ''00000000000000000000000a''"

definition p11 :: object_id where
  "p11 = ''00000000000000000000000b''"

definition p12 :: object_id where
  "p12 = ''00000000000000000000000c''"

definition o100 :: object_id where
  "o100 = ''000000000000000000000100''"

definition o101 :: object_id where
  "o101 = ''000000000000000000000101''"

definition i50 :: object_id where
  "i50 = ''000000000000000000000050''"

definition i51 :: object_id where
  "i51 = ''000000000000000000000051''"

text \<open>The id of product 12 as a client may also spell it, in upper case.\<close>

definition p12_upper :: string where
  "p12_upper = ''00000000000000000000000C''"

definition alice :: req_user where
  "alice = \<lparr> u_id = alice_id, u_role = Role_user \<rparr>"

definition bob :: req_user where
  "bob = \<lparr> u_id = bob_id, u_role = Role_user \<rparr>"

definition dress :: "string \<Rightarrow> rat \<Rightarrow> order_item" where
  "dress pid q = \<lparr> oi_product = pid, oi_name = ''Dress'', oi_quantity = Num q,
                  oi_size = ''M'', oi_price = Num 10, oi_image = None \<rparr>"

definition checkout :: "order_item list \<Rightarrow> order_body" where
  "checkout its =
     \<lparr> b_orderItems = Some its,
       b_shippingAddress = \<lparr> street = ''1 Main St'', city = ''Pune'', state_name = ''MH'',
                             zipCode = ''411001'', country = None \<rparr>,
       b_paymentMethod = ''COD'', b_itemsPrice = None, b_taxPrice = None,
       b_shippingPrice = None, b_totalPrice = None \<rparr>"

text \<open>The order document that \<open>checkout its\<close> by alice or bob makes.\<close>

definition placed :: "object_id \<Rightarrow> order_item list \<Rightarrow> order" where
  "placed uid its =
     \<lparr> o_user = uid, orderItems = its,
       shippingAddress = \<lparr> street = ''1 Main St'', city = ''Pune'', state_name = ''MH'',
                           zipCode = ''411001'', country = Some ''India'' \<rparr>,
       paymentMethod = ''COD'', paymentResult = None,
       itemsPrice = Num 0, taxPrice = Num 0, shippingPrice = Num 0, totalPrice = Num 0,
       isPaid = False, paidAt = None, isDelivered = False, deliveredAt = None,
       status = Processing, trackingNumber = None \<rparr>"

definition shop :: store where
  "shop = \<lparr> products = [p10 \<mapsto> \<lparr> stock = Num 1, price = Num 10 \<rparr>,
                         p11 \<mapsto> \<lparr> stock = Num 1, price = Num 10 \<rparr>,
                         p12 \<mapsto> \<lparr> stock = Num 5, price = Num 10 \<rparr>],
            carts = Map.empty, orders = Map.empty \<rparr>"

text \<open>The shop after alice has bought the only unit of product 10, as order 100.\<close>

definition sold_out :: store where
  "sold_out = snd (createOrder alice (checkout [dress p10 1]) o100 shop)"

text \<open>The same, with order 100 shipped.\<close>

definition shipped :: store where
  "shipped = sold_out\<lparr>orders := [o100 \<mapsto> (placed alice_id [dress p10 1])\<lparr>status := Shipped\<rparr>]\<rparr>"

text \<open>The shop after alice has cancelled order 100.\<close>

definition cancelled :: store where
  "cancelled = snd (cancelOrder alice o100 sold_out)"

text \<open>
  A shop whose product 10 has \<open>2^53\<close> units in stock, with alice's cancelled order 100
  for one unit of it.
\<close>

definition brimful :: store where
  "brimful = \<lparr> products = [p10 \<mapsto> \<lparr> stock = Num 9007199254740992, price = Num 10 \<rparr>],
               carts = Map.empty,
               orders = [o100 \<mapsto> (placed alice_id [dress p10 1])\<lparr>status := Cancelled\<rparr>] \<rparr>"

text \<open>The shop with three units of product 12, size M, red, in alice's cart.\<close>

definition basket :: store where
  "basket = shop\<lparr>carts :=
     [alice_id \<mapsto> [\<lparr> ci_id = i50, ci_product = p12, ci_quantity = Num 3,
                      ci_size = Some ''M'', ci_color = Some ''red'', ci_price = Num 10 \<rparr>]]\<rparr>"

definition red_dress :: "string \<Rightarrow> rat \<Rightarrow> cart_body" where
  "red_dress pid q = \<lparr> cb_productId = pid, cb_quantity = Some (Num q), cb_size = Some ''M'',
                      cb_color = Some ''red'' \<rparr>"

definition blue_dress :: cart_body where
  "blue_dress = \<lparr> cb_productId = p10, cb_quantity = None, cb_size = Some ''S'',
                   cb_color = Some ''blue'' \<rparr>"

definition receipt :: pay_body where
  "receipt = \<lparr> pb_id = Some ''PAY-1'', pb_status = Some ''COMPLETED'',
               pb_update_time = Some ''2024-01-01'',
               pb_payer = Some \<lparr> email_address = Some ''bob@example.com'' \<rparr> \<rparr>"

lemmas id_defs =
  alice_id_def bob_id_def p10_def p11_def p12_def p12_upper_def o100_def o101_def i50_def
  i51_def

lemmas example_defs =
  alice_def bob_def dress_def checkout_def placed_def shop_def sold_out_def shipped_def
  cancelled_def brimful_def basket_def red_dress_def blue_dress_def receipt_def

lemmas order_defs =
  createOrder_def cancelOrder_def updateOrderToPaid_def Order_create_def new_order_def
  cast_item_def orderSchemaValid_def orderItemValid_def Product_save_def

lemmas cart_defs =
  addToCart_def updateCartItem_def removeFromCart_def clearCart_def Cart_save_def
  cartItemValid_def cart_of_def item_key_def

section \<open>Exact arithmetic on counts\<close>

lemma ilog2_lower: assumes "0 < x" shows "2 powi (ilog2 x) \<le> x"
proof -
  obtain a b where q: "quotient_of x = (a, b)" by (cases "quotient_of x")
  then have b: "0 < b" and x: "x = of_int a / of_int b"
    using quotient_of_denom_pos quotient_of_div by auto
  with assms have a: "0 < a" by (simp add: zero_less_divide_iff)
  define k where "k = bitlen a - bitlen b"
  show ?thesis
  proof (cases "2 powi k \<le> x")
    case True
    then show ?thesis by (simp add: ilog2_def q k_def)
  next
    case False
    then have e: "ilog2 x = k - 1" by (simp add: ilog2_def q k_def Let_def)
    from bitlen_bounds [OF a] have la: "2 ^ nat (bitlen a - 1) \<le> a" by simp
    from bitlen_bounds [OF b] have lb: "b < 2 ^ nat (bitlen b)" by simp
    have ba: "1 \<le> bitlen a" using a bitlen_eq_zero_iff [of a] bitlen_nonneg [of a] by linarith
    have bb: "0 \<le> bitlen b" by (rule bitlen_nonneg)
    have "(2::rat) powi (k - 1) = 2 powi (bitlen a - 1) / 2 powi (bitlen b)"
      by (simp add: k_def power_int_diff)
    also have "\<dots> = 2 ^ nat (bitlen a - 1) / 2 ^ nat (bitlen b)"
      using ba bb by (simp add: power_int_nonneg_exp)
    also have "\<dots> \<le> of_int a / 2 ^ nat (bitlen b)"
    proof -
      from la have "(of_int (2 ^ nat (bitlen a - 1)) :: rat) \<le> of_int a"
        by (simp only: of_int_le_iff)
      then show ?thesis by (simp add: divide_right_mono)
    qed
    also have "\<dots> \<le> of_int a / of_int b"
    proof -
      from lb have "(of_int b :: rat) \<le> of_int (2 ^ nat (bitlen b))"
        by (simp only: of_int_le_iff)
      with a b show ?thesis by (simp add: frac_le)
    qed
    finally have "(2::rat) powi (k - 1) \<le> x" by (simp only: x [symmetric])
    then show ?thesis by (simp only: e)
  qed
qed


lemma ilog2_upper: assumes "0 < x" shows "x < 2 powi (ilog2 x + 1)"
proof -
  obtain a b where q: "quotient_of x = (a, b)" by (cases "quotient_of x")
  then have b: "0 < b" and x: "x = of_int a / of_int b"
    using quotient_of_denom_pos quotient_of_div by auto
  with assms have a: "0 < a" by (simp add: zero_less_divide_iff)
  define k where "k = bitlen a - bitlen b"
  show ?thesis
  proof (cases "2 powi k \<le> x")
    case False
    then have "ilog2 x = k - 1" by (simp add: ilog2_def q k_def Let_def)
    with False show ?thesis by simp
  next
    case True
    then have e: "ilog2 x = k" by (simp add: ilog2_def q k_def)
    from bitlen_bounds [OF a] have la: "a < 2 ^ nat (bitlen a)" by simp
    from bitlen_bounds [OF b] have lb: "2 ^ nat (bitlen b - 1) \<le> b" by simp
    have ba: "0 \<le> bitlen a" by (rule bitlen_nonneg)
    have bb: "1 \<le> bitlen b" using b bitlen_eq_zero_iff [of b] bitlen_nonneg [of b] by linarith
    have "of_int a / of_int b \<le> (of_int a :: rat) / 2 ^ nat (bitlen b - 1)"
    proof -
      from lb have "(of_int (2 ^ nat (bitlen b - 1)) :: rat) \<le> of_int b"
        by (simp only: of_int_le_iff)
      with a show ?thesis by (simp add: frac_le)
    qed
    also have "\<dots> < 2 ^ nat (bitlen a) / 2 ^ nat (bitlen b - 1)"
    proof -
      from la have "(of_int a :: rat) < of_int (2 ^ nat (bitlen a))"
        by (simp only: of_int_less_iff)
      then show ?thesis by (simp add: divide_strict_right_mono)
    qed
    also have "\<dots> = 2 powi (bitlen a) / 2 powi (bitlen b - 1)"
      using ba bb by (simp add: power_int_nonneg_exp)
    also have "\<dots> = (2::rat) powi (k + 1)"
      by (simp add: k_def power_int_diff power_int_add)
    finally have "x < 2 powi (k + 1)" by (simp only: x [symmetric])
    then show ?thesis by (simp only: e)
  qed
qed

lemma round_even_of_int: "round_even (of_int m) = m"
  by (simp add: round_even_def)

lemma ilog2_le:
  assumes "0 < x" and "x \<le> 2 ^ n"
  shows "ilog2 x \<le> int n"
proof (rule ccontr)
  assume "\<not> ilog2 x \<le> int n"
  then have "int n + 1 \<le> ilog2 x" by simp
  then have "(2::rat) powi (int n + 1) \<le> 2 powi (ilog2 x)"
    by (intro power_int_increasing) simp_all
  also note ilog2_lower [OF assms(1)]
  also note assms(2)
  finally show False by (simp add: power_int_add)
qed

lemma nearest_exact:
  assumes pos: "0 < x" and int: "x \<in> \<int>" and le: "x \<le> 2 ^ 53"
  shows "nearest x = x"
proof -
  define u where "u = max (ilog2 x - 52) (- 1074)"
  from int obtain n where n: "x = of_int n" by (auto elim: Ints_cases)
  from ilog2_le [OF pos le] have e: "ilog2 x \<le> 53" by simp
  then have u1: "u \<le> 1" by (simp add: u_def)
  have near: "nearest x = of_int (round_even (x / 2 powi u)) * 2 powi u"
    by (simp add: nearest_def u_def Let_def)
  show ?thesis
  proof (cases "u \<le> 0")
    case True
    define k where "k = nat (- u)"
    from True have uk: "u = - int k" by (simp add: k_def)
    have "x / 2 powi u = of_int (n * 2 ^ k)"
      by (simp add: uk n power_int_minus divide_inverse)
    then have "round_even (x / 2 powi u) = n * 2 ^ k"
      by (simp only: round_even_of_int)
    then have "nearest x = of_int (n * 2 ^ k) * 2 powi u"
      by (simp only: near)
    also have "\<dots> = x"
      by (simp add: uk n power_int_minus)
    finally show ?thesis .
  next
    case False
    with u1 have u: "u = 1" by simp
    then have "ilog2 x = 53" using e by (simp add: u_def max_def split: if_splits)
    with ilog2_lower [OF pos] have "2 ^ 53 \<le> x" by simp
    with le have x: "x = 2 ^ 53" by simp
    have "x / 2 powi u = of_int (2 ^ 52)" by (simp add: x u)
    then have "round_even (x / 2 powi u) = 2 ^ 52"
      by (simp only: round_even_of_int)
    then have "nearest x = of_int (2 ^ 52) * 2 powi u"
      by (simp only: near)
    also have "\<dots> = x"
      by (simp add: u x)
    finally show ?thesis .
  qed
qed

lemma to_number_exact:
  assumes "x \<in> \<int>" and "\<bar>x\<bar> \<le> 2 ^ 53"
  shows "to_number x = Num x"
proof -
  consider "x = 0" | "0 < x" | "x < 0" by linarith
  then show ?thesis
  proof cases
    case 1
    then show ?thesis by (simp add: to_number_def)
  next
    case 2
    with assms have "nearest x = x" by (intro nearest_exact) simp_all
    moreover from assms have "x < 2 ^ 1024"
      by (intro le_less_trans [of x "2 ^ 53"]) simp_all
    ultimately show ?thesis using 2 by (simp add: to_number_def)
  next
    case 3
    with assms have "nearest (- x) = - x" by (intro nearest_exact) simp_all
    moreover from assms 3 have "- x < 2 ^ 1024"
      by (intro le_less_trans [of "- x" "2 ^ 53"]) simp_all
    ultimately show ?thesis using 3 by (simp add: to_number_def)
  qed
qed








text \<open>Particular roundings, by computation.\<close>

lemma to_number_above_2_53: "to_number 9007199254740993 = Num 9007199254740992"
  by code_simp

lemma to_number_7_halves: "to_number (7 / 2) = Num (7 / 2)"
  by code_simp

lemmas num_defs = num_sub_def to_number_exact to_number_above_2_53 to_number_7_halves

text \<open>The identifiers of the examples are in the form a cast yields.\<close>

lemma cast_examples:
  "castObjectId p10 = Some p10" "castObjectId p11 = Some p11" "castObjectId p12 = Some p12"
  "castObjectId o100 = Some o100" "castObjectId o101 = Some o101"
  "castObjectId i50 = Some i50" "castObjectId i51 = Some i51"
  "castObjectId p12_upper = Some p12"
  by (simp_all add: castObjectId_def hex_digit_def lower_hex_def id_defs)

lemma distinct_examples:
  "p10 \<noteq> p11" "p10 \<noteq> p12" "p11 \<noteq> p12" "p11 \<noteq> p10" "p12 \<noteq> p10" "p12 \<noteq> p11"
  "o100 \<noteq> o101" "o101 \<noteq> o100" "i50 \<noteq> i51" "i51 \<noteq> i50" "alice_id \<noteq> bob_id"
  "bob_id \<noteq> alice_id" "p12_upper \<noteq> p12" "p12 \<noteq> p12_upper"
  "i50 \<noteq> p10" "i50 \<noteq> p12" "i51 \<noteq> p10" "i51 \<noteq> p12" "p12 \<noteq> i50" "p10 \<noteq> i50"
  "p12 \<noteq> i51" "p10 \<noteq> i51"
  by (simp_all add: id_defs)

section \<open>The stock loops\<close>


lemma Product_save_nonneg:
  "stock_nonneg s \<Longrightarrow> Product_save pid p s = Inr s' \<Longrightarrow> stock_nonneg s'"
  by (auto simp: Product_save_def stock_nonneg_def split: if_splits)


lemma decrement_stock_nonneg:
  "decrement_stock its s = (r, s') \<Longrightarrow> stock_nonneg s \<Longrightarrow> stock_nonneg s'"
proof (induction its arbitrary: s)
  case Nil
  then show ?case by simp
next
  case (Cons it its)
  then show ?case
    by (auto split: option.splits sum.splits dest: Product_save_nonneg)
qed


lemma restore_stock_nonneg:
  "restore_stock its s = (r, s') \<Longrightarrow> stock_nonneg s \<Longrightarrow> stock_nonneg s'"
proof (induction its arbitrary: s)
  case Nil
  then show ?case by simp
next
  case (Cons it its)
  then show ?case
    by (auto split: option.splits sum.splits dest: Product_save_nonneg)
qed










lemma stock_nonneg_orders: "stock_nonneg (s\<lparr>orders := m\<rparr>) = stock_nonneg s"
  by (simp add: stock_nonneg_def)


lemma createOrder_nonneg:
  "stock_nonneg s \<Longrightarrow> stock_nonneg (snd (createOrder u b new_id s))"
  by (auto simp: createOrder_def Order_create_def stock_nonneg_orders
           split: option.splits sum.splits prod.splits if_splits
           dest!: decrement_stock_nonneg)

lemma cancelOrder_nonneg:
  "stock_nonneg s \<Longrightarrow> stock_nonneg (snd (cancelOrder u param_id s))"
  by (auto simp: cancelOrder_def Let_def stock_nonneg_orders
           split: option.splits prod.splits
           dest!: restore_stock_nonneg)

lemma Cart_save_products: "products (snd (Cart_save uid its s)) = products s"
  by (simp add: Cart_save_def)

lemma addToCart_products: "products (snd (addToCart u b new_id s)) = products s"
  by (simp add: addToCart_def Let_def Cart_save_products split: option.splits)

lemma updateCartItem_products: "products (snd (updateCartItem u itemId q s)) = products s"
  by (simp add: updateCartItem_def Cart_save_products split: option.splits)

lemma removeFromCart_products: "products (snd (removeFromCart u itemId s)) = products s"
  by (simp add: removeFromCart_def Let_def Cart_save_products split: option.splits)

lemma clearCart_products: "products (snd (clearCart u s)) = products s"
  by (simp add: clearCart_def Cart_save_products split: option.splits)

lemma step_nonneg: "stock_nonneg s \<Longrightarrow> stock_nonneg (step x s)"
proof (cases x)
  case (CreateOrder u b new_id)
  assume "stock_nonneg s"
  with CreateOrder show ?thesis by (simp add: createOrder_nonneg)
next
  case (CancelOrder u param_id)
  assume "stock_nonneg s"
  with CancelOrder show ?thesis by (simp add: cancelOrder_nonneg)
qed (simp_all add: stock_nonneg_def addToCart_products updateCartItem_products
       removeFromCart_products clearCart_products)

lemma run_nonneg: "stock_nonneg s \<Longrightarrow> stock_nonneg (run xs s)"
  by (induction xs arbitrary: s) (simp_all add: step_nonneg)

lemmas eval_defs = cast_examples distinct_examples num_defs Let_def

section \<open>Order creation\<close>




section \<open>Stock never negative\<close>

text \<open>
  C2 (as amended). Starting from a database in which no product has negative stock,
  after every request of every sequence of addToCart, updateCartItem, removeFromCart,
  clearCart, createOrder and cancelOrder requests (that is, after every prefix of the
  sequence) no product has negative stock. That the stock remains an integer is not
  claimed.
\<close>

theorem stock_never_negative:
  assumes "stock_nonneg s"
  shows "\<forall>k\<le>length xs. stock_nonneg (run (take k xs) s)"
  using assms by (simp add: run_nonneg)

text \<open>
  C2 fails as stated: product 12 has 5 units, a whole number; alice orders 3/2 units,
  which the order schema accepts (a Number of at least 1); the call succeeds and leaves
  a stock of 7/2, which is not an integer.
\<close>

theorem stock_not_whole_counterexample:
  "products shop p12 = Some \<lparr> stock = Num 5, price = Num 10 \<rparr> \<and>
   fst (createOrder alice (checkout [dress p12 (3 / 2)]) o100 shop) =
     Inr (placed alice_id [dress p12 (3 / 2)]) \<and>
   products (snd (createOrder alice (checkout [dress p12 (3 / 2)]) o100 shop)) p12 =
     Some \<lparr> stock = Num (7 / 2), price = Num 10 \<rparr> \<and>
   (7 / 2 :: rat) \<notin> \<int>"
proof -
  have fl: "\<lfloor>7 / 2 :: rat\<rfloor> = 3"
    by (rule floor_unique) simp_all
  have "(7 / 2 :: rat) \<notin> \<int>"
  proof
    assume "(7 / 2 :: rat) \<in> \<int>"
    then have "of_int \<lfloor>7 / 2 :: rat\<rfloor> = (7 / 2 :: rat)" by simp
    then have "(of_int 3 :: rat) = 7 / 2" by (simp only: fl)
    then show False by simp
  qed
  moreover
  have "products shop p12 = Some \<lparr> stock = Num 5, price = Num 10 \<rparr> \<and>
        fst (createOrder alice (checkout [dress p12 (3 / 2)]) o100 shop) =
          Inr (placed alice_id [dress p12 (3 / 2)]) \<and>
        products (snd (createOrder alice (checkout [dress p12 (3 / 2)]) o100 shop)) p12 =
          Some \<lparr> stock = Num (7 / 2), price = Num 10 \<rparr>"
    by (simp add: example_defs order_defs eval_defs)
  ultimately show ?thesis by blast
qed

text \<open>
  The amended C2 at a concrete sequence on the shop: an order that sells product 10 out, a
  second order for it that is refused, a cart request, and the cancellation of the first
  order.
\<close>

theorem stock_never_negative_witness:
  "products (run [CreateOrder alice (checkout [dress p10 1]) o100,
                  CreateOrder bob (checkout [dress p10 1]) o101,
                  AddToCart alice (red_dress p12 2) i51,
                  CancelOrder alice o100] shop) p10 = Some \<lparr> stock = Num 1, price = Num 10 \<rparr> \<and>
   products (run [CreateOrder alice (checkout [dress p10 1]) o100,
                  CreateOrder bob (checkout [dress p10 1]) o101] shop) p10 =
     Some \<lparr> stock = Num 0, price = Num 10 \<rparr> \<and>
   (\<exists>p. products (run [CreateOrder alice (checkout [dress p10 1]) o100,
                        CreateOrder bob (checkout [dress p10 1]) o101] shop) p10 = Some p \<and>
        num_le (Num 0) (stock p))"
proof -
  let ?xs = "[CreateOrder alice (checkout [dress p10 1]) o100,
              CreateOrder bob (checkout [dress p10 1]) o101,
              AddToCart alice (red_dress p12 2) i51,
              CancelOrder alice o100]"
  have h: "stock_nonneg shop"
    by (simp add: stock_nonneg_def shop_def)
  have two: "products (run (take 2 ?xs) shop) p10 = Some \<lparr> stock = Num 0, price = Num 10 \<rparr>"
    by (simp add: example_defs order_defs eval_defs)
  have four: "products (run ?xs shop) p10 = Some \<lparr> stock = Num 1, price = Num 10 \<rparr>"
    by (simp add: example_defs order_defs cart_defs eval_defs)
  have "\<forall>k\<le>length ?xs. stock_nonneg (run (take k ?xs) shop)"
    by (rule stock_never_negative [OF h])
  then have "2 \<le> length ?xs \<longrightarrow> stock_nonneg (run (take 2 ?xs) shop)"
    by (rule spec)
  then have "stock_nonneg (run (take 2 ?xs) shop)"
    by simp
  with two have "\<exists>p. products (run (take 2 ?xs) shop) p10 = Some p \<and> num_le (Num 0) (stock p)"
    by (simp add: stock_nonneg_def)
  with two four show ?thesis by simp
qed

text \<open>
  C4, evaluated on the code. Product 10 has one unit; alice's order takes it and the
  stock is 0. Bob's order for one unit then fails, but with the ValidationError of the
  product schema, which the error middleware renders with status 500, not with the
  400 "Insufficient stock" error that the cart handlers raise; and bob's order
  document 101 stays persisted.
\<close>

theorem createOrder_after_sold_out:
  "products sold_out p10 = Some \<lparr> stock = Num 0, price = Num 10 \<rparr> \<and>
   fst (createOrder bob (checkout [dress p10 1]) o101 sold_out) = Inl ValidationError \<and>
   statusCode ValidationError = 500 \<and>
   fst (createOrder bob (checkout [dress p10 1]) o101 sold_out) \<noteq>
     Inl (ErrorHandler ''Insufficient stock'' 400) \<and>
   products (snd (createOrder bob (checkout [dress p10 1]) o101 sold_out)) p10 =
     Some \<lparr> stock = Num 0, price = Num 10 \<rparr> \<and>
   orders (snd (createOrder bob (checkout [dress p10 1]) o101 sold_out)) o101 =
     Some (placed bob_id [dress p10 1])"
  by (simp add: example_defs order_defs eval_defs)

section \<open>Cancellation\<close>



lemma sold_out_orders: "orders sold_out o100 = Some (placed alice_id [dress p10 1])"
  by (simp add: example_defs order_defs eval_defs)










section \<open>Payment\<close>

text \<open>
  C6, evaluated on the code. Order 100 is alice's; bob is an ordinary user and not its
  owner. His request to mark it paid succeeds: the stored order goes from unpaid to paid
  and takes his receipt. The cancel handler refuses the same requester on the same order.
\<close>

theorem updateOrderToPaid_by_stranger:
  "map_option o_user (orders sold_out o100) = Some alice_id \<and>
   map_option isPaid (orders sold_out o100) = Some False \<and>
   u_id bob = bob_id \<and> bob_id \<noteq> alice_id \<and> u_role bob = Role_user \<and>
   fst (updateOrderToPaid bob o100 receipt 1700 sold_out) =
     Inr ((placed alice_id [dress p10 1])
            \<lparr>isPaid := True, paidAt := Some 1700,
             paymentResult := Some \<lparr> pr_id = Some ''PAY-1'', pr_status = Some ''COMPLETED'',
                                     pr_updateTime = Some ''2024-01-01'',
                                     pr_emailAddress = Some ''bob@example.com'' \<rparr>\<rparr>) \<and>
   map_option isPaid (orders (snd (updateOrderToPaid bob o100 receipt 1700 sold_out)) o100) =
     Some True \<and>
   fst (cancelOrder bob o100 sold_out) =
     Inl (ErrorHandler ''Not authorized to cancel this order'' 401)"
  by (simp add: sold_out_orders updateOrderToPaid_def cancelOrder_def bob_def receipt_def
        placed_def eval_defs)

section \<open>The cart\<close>

lemma findIndex_None: "findIndex P xs = None \<longleftrightarrow> (\<forall>x\<in>set xs. \<not> P x)"
  by (induction xs) auto

lemma Cart_save_Inr:
  "Cart_save uid its s = (Inr its', s') \<Longrightarrow>
     its' = its \<and> s' = s\<lparr>carts := (carts s)(uid \<mapsto> its)\<rparr> \<and> list_all cartItemValid its"
  by (auto simp: Cart_save_def split: if_splits)

text \<open>
  C5, evaluated on the code. Alice has three red dresses of size M, product 12, in her
  cart. Her request to add one more names the product by the upper-case spelling of its
  id: \<^verbatim>\<open>findById\<close> finds the product, but the search for an existing item compares
  the string as it came with the stored lower-case one and finds none, so a second item
  with the same (product, size, color) key is appended. With the lower-case spelling the
  item is merged.
\<close>

theorem addToCart_duplicate_key:
  "castObjectId p12_upper = Some p12 \<and>
   fst (addToCart alice (red_dress p12_upper 1) i51 basket) =
     Inr [\<lparr> ci_id = i50, ci_product = p12, ci_quantity = Num 3, ci_size = Some ''M'',
            ci_color = Some ''red'', ci_price = Num 10 \<rparr>,
          \<lparr> ci_id = i51, ci_product = p12, ci_quantity = Num 1, ci_size = Some ''M'',
            ci_color = Some ''red'', ci_price = Num 10 \<rparr>] \<and>
   map_option (map item_key)
     (carts (snd (addToCart alice (red_dress p12_upper 1) i51 basket)) alice_id) =
     Some [(p12, Some ''M'', Some ''red''), (p12, Some ''M'', Some ''red'')] \<and>
   fst (addToCart alice (red_dress p12 1) i51 basket) =
     Inr [\<lparr> ci_id = i50, ci_product = p12, ci_quantity = Num 4, ci_size = Some ''M'',
            ci_color = Some ''red'', ci_price = Num 10 \<rparr>]"
  by (simp add: example_defs cart_defs eval_defs)

text \<open>
  C7 (as amended). \<^verbatim>\<open>clearCart\<close> fails with the not-found error (404), changing
  nothing, for a user who has no cart document; for a user who has one it succeeds and
  yields a cart whose item list is empty. In both cases running it twice gives the same
  result as running it once.
\<close>

theorem clearCart_idempotent:
  "(carts s (u_id u) = None \<longrightarrow>
      clearCart u s = (Inl (ErrorHandler ''Cart not found'' 404), s)) \<and>
   (carts s (u_id u) \<noteq> None \<longrightarrow>
      clearCart u s = (Inr [], s\<lparr>carts := (carts s)(u_id u \<mapsto> [])\<rparr>)) \<and>
   clearCart u (snd (clearCart u s)) = clearCart u s"
  by (auto simp: clearCart_def Cart_save_def split: option.splits)

text \<open>
  C7 fails as stated: alice has no cart document in the shop, and her request to clear
  the cart fails with status 404; no cart is created.
\<close>

theorem clearCart_no_cart_counterexample:
  "carts shop (u_id alice) = None \<and>
   fst (clearCart alice shop) = Inl (ErrorHandler ''Cart not found'' 404) \<and>
   carts (snd (clearCart alice shop)) (u_id alice) = None"
  by (simp add: example_defs cart_defs)

text \<open>
  The amended C7 at concrete carts: with three dresses in her cart alice's request
  empties it, and repeating the request gives the same; with no cart it is refused.
\<close>

theorem clearCart_idempotent_witness:
  "carts basket (u_id alice) \<noteq> None \<and>
   clearCart alice basket = (Inr [], basket\<lparr>carts := (carts basket)(u_id alice \<mapsto> [])\<rparr>) \<and>
   clearCart alice (snd (clearCart alice basket)) = clearCart alice basket \<and>
   carts shop (u_id alice) = None \<and>
   clearCart alice shop = (Inl (ErrorHandler ''Cart not found'' 404), shop)"
proof -
  have some: "carts basket (u_id alice) \<noteq> None"
    by (simp add: example_defs)
  have none: "carts shop (u_id alice) = None"
    by (simp add: example_defs)
  from clearCart_idempotent [of basket alice] clearCart_idempotent [of shop alice] some none
  show ?thesis by blast
qed

text \<open>
  C8, evaluated on the code. Alice has three red dresses of size M in her cart and five
  are in stock. Her request to add the same dress with quantity -1 does not fail: it is
  merged, and the cart is saved with quantity 2. The update handler refuses the same
  quantity with its explicit check.
\<close>

theorem addToCart_negative_quantity:
  "fst (addToCart alice (red_dress p12 (- 1)) i51 basket) =
     Inr [\<lparr> ci_id = i50, ci_product = p12, ci_quantity = Num 2, ci_size = Some ''M'',
            ci_color = Some ''red'', ci_price = Num 10 \<rparr>] \<and>
   carts (snd (addToCart alice (red_dress p12 (- 1)) i51 basket)) (u_id alice) =
     Some [\<lparr> ci_id = i50, ci_product = p12, ci_quantity = Num 2, ci_size = Some ''M'',
             ci_color = Some ''red'', ci_price = Num 10 \<rparr>] \<and>
   carts basket (u_id alice) =
     Some [\<lparr> ci_id = i50, ci_product = p12, ci_quantity = Num 3, ci_size = Some ''M'',
             ci_color = Some ''red'', ci_price = Num 10 \<rparr>] \<and>
   fst (updateCartItem alice i50 (Num (- 1)) basket) =
     Inl (ErrorHandler ''Quantity must be at least 1'' 400)"
  by (simp add: example_defs cart_defs eval_defs)

text \<open>
  C9 (as amended). Round-trip: when a successful \<^verbatim>\<open>addToCart\<close> is for a
  (product, size, color) key that the cart did not hold, so that it appends an item, then
  \<^verbatim>\<open>removeFromCart\<close> with that item's id, or with its product's id, given that no
  other item of the cart has that value as its id or its product, succeeds and returns
  the cart to its prior item list, hence to its prior item count.
\<close>

theorem add_new_then_remove_restores:
  assumes add: "addToCart u b new_id s = (Inr items1, s1)"
    and new: "(cb_productId b, cb_size b, cb_color b) \<notin> set (map item_key (cart_of s (u_id u)))"
    and which: "itemId = new_id \<or> castObjectId (cb_productId b) = Some itemId"
    and other: "\<forall>item\<in>set (cart_of s (u_id u)). ci_id item \<noteq> itemId \<and> ci_product item \<noteq> itemId"
  shows "length items1 = length (cart_of s (u_id u)) + 1 \<and>
         (\<exists>s2. removeFromCart u itemId s1 = (Inr (cart_of s (u_id u)), s2) \<and>
               carts s2 (u_id u) = Some (cart_of s (u_id u)) \<and>
               length (cart_of s2 (u_id u)) = length (cart_of s (u_id u)))"
proof -
  define items where "items = cart_of s (u_id u)"
  define P where "P = (\<lambda>item::cart_item. ci_product item = cb_productId b \<and>
                               ci_size item = cb_size b \<and> ci_color item = cb_color b)"
  from add obtain pid product where pid: "castObjectId (cb_productId b) = Some pid"
    and prod: "products s pid = Some product"
    by (auto simp: addToCart_def Let_def split: option.splits)
  from new have "\<forall>x\<in>set items. \<not> P x"
    by (force simp: P_def item_key_def items_def)
  then have none: "findIndex P items = None" by (simp add: findIndex_None)
  let ?new = "\<lparr> ci_id = new_id, ci_product = pid,
                ci_quantity = (case cb_quantity b of None \<Rightarrow> Num 1 | Some q \<Rightarrow> q),
                ci_size = cb_size b, ci_color = cb_color b, ci_price = price product \<rparr>"
  from add pid prod none have "Cart_save (u_id u) (items @ [?new]) s = (Inr items1, s1)"
    by (auto simp: addToCart_def Let_def items_def cart_of_def P_def split: if_splits)
  from Cart_save_Inr [OF this] have eq: "items1 = items @ [?new]"
    and s1: "s1 = s\<lparr>carts := (carts s)(u_id u \<mapsto> items @ [?new])\<rparr>"
    and valid: "list_all cartItemValid (items @ [?new])" by simp_all
  from other have keep: "filter (\<lambda>item. ci_id item \<noteq> itemId \<and> ci_product item \<noteq> itemId) items = items"
    by (auto simp: items_def filter_id_conv)
  from which pid have drop: "\<not> (ci_id ?new \<noteq> itemId \<and> ci_product ?new \<noteq> itemId)" by auto
  have flt: "filter (\<lambda>item. ci_id item \<noteq> itemId \<and> ci_product item \<noteq> itemId) (items @ [?new]) = items"
    using keep drop by simp
  from valid have v: "list_all cartItemValid items" by simp
  have "removeFromCart u itemId s1 = (Inr items, s1\<lparr>carts := (carts s1)(u_id u \<mapsto> items)\<rparr>)"
    using flt v by (simp add: removeFromCart_def s1 Let_def Cart_save_def)
  then show ?thesis
    unfolding items_def [symmetric] by (simp add: eq cart_of_def)
qed

text \<open>
  C9 fails as stated: alice has one item, three red dresses of size M. Adding one more of
  the same key succeeds and merges, leaving one item; removing the item of that key
  succeeds and leaves none. The prior item count was 1.
\<close>

theorem add_then_remove_merged_counterexample:
  "length (cart_of basket (u_id alice)) = 1 \<and>
   fst (addToCart alice (red_dress p12 1) i51 basket) =
     Inr [\<lparr> ci_id = i50, ci_product = p12, ci_quantity = Num 4, ci_size = Some ''M'',
            ci_color = Some ''red'', ci_price = Num 10 \<rparr>] \<and>
   fst (removeFromCart alice i50 (snd (addToCart alice (red_dress p12 1) i51 basket))) = Inr [] \<and>
   length (cart_of (snd (removeFromCart alice i50
                      (snd (addToCart alice (red_dress p12 1) i51 basket))))
             (u_id alice)) = 0"
  by (simp add: example_defs cart_defs eval_defs)

text \<open>
  The amended C9 at a concrete cart: alice adds a blue dress of size S, a new key, beside
  her red ones, and removes it by the new item's id 51; the cart is as before.
\<close>

theorem add_new_then_remove_restores_witness:
  "fst (addToCart alice blue_dress i51 basket) =
     Inr (cart_of basket (u_id alice) @
          [\<lparr> ci_id = i51, ci_product = p10, ci_quantity = Num 1, ci_size = Some ''S'',
             ci_color = Some ''blue'', ci_price = Num 10 \<rparr>]) \<and>
   (cb_productId blue_dress, cb_size blue_dress, cb_color blue_dress)
     \<notin> set (map item_key (cart_of basket (u_id alice))) \<and>
   fst (removeFromCart alice i51 (snd (addToCart alice blue_dress i51 basket))) =
     Inr (cart_of basket (u_id alice)) \<and>
   length (cart_of basket (u_id alice)) = 1"
proof -
  let ?a = "addToCart alice blue_dress i51 basket"
  let ?items1 = "cart_of basket (u_id alice) @
          [\<lparr> ci_id = i51, ci_product = p10, ci_quantity = Num 1, ci_size = Some ''S'',
             ci_color = Some ''blue'', ci_price = Num 10 \<rparr>]"
  have f: "fst ?a = Inr ?items1"
    by (simp add: example_defs cart_defs eval_defs)
  then have add: "?a = (Inr ?items1, snd ?a)"
    by (simp add: prod_eq_iff)
  have new: "(cb_productId blue_dress, cb_size blue_dress, cb_color blue_dress)
               \<notin> set (map item_key (cart_of basket (u_id alice)))"
    by (simp add: example_defs cart_defs eval_defs)
  have which: "i51 = i51 \<or> castObjectId (cb_productId blue_dress) = Some i51" by simp
  have other: "\<forall>item\<in>set (cart_of basket (u_id alice)). ci_id item \<noteq> i51 \<and> ci_product item \<noteq> i51"
    by (simp add: example_defs cart_defs eval_defs)
  from add_new_then_remove_restores [OF add new which other]
  have "fst (removeFromCart alice i51 (snd ?a)) = Inr (cart_of basket (u_id alice))"
    by auto
  moreover have "length (cart_of basket (u_id alice)) = 1"
    by (simp add: example_defs cart_defs)
  ultimately show ?thesis using f new by simp
qed

end
